theory Spec2Isabelle
  imports Complex_Main "HOL-Library.AList" "HOL-Library.Multiset"
begin

section \<open>The league ledger of \<open>league_tracker_ui.py\<close>\<close>

text \<open>
  The class \<open>CommanderLeague\<close> keeps two attributes: \<open>players\<close>, a dict from a player's
  name to a dict with the keys \<open>points\<close>, \<open>games_played\<close>, \<open>mvp_count\<close> and \<open>color\<close>, and
  \<open>history\<close>, a list of game dicts.

  A Python dict iterates in insertion order and holds each key once. It is modelled as an
  association list in insertion order: \<open>map_of\<close> is the lookup \<open>d[k]\<close> (\<open>None\<close> where Python
  raises \<open>KeyError\<close>), \<open>AList.update k v\<close> is the store \<open>d[k] = v\<close> (it overwrites in place,
  or appends a new key at the end) and \<open>AList.delete\<close> is \<open>del d[k]\<close>. That keys are held
  once is the predicate \<open>dict\<close> below; a theorem assumes it only where it needs it.

  Python integers are unbounded: \<open>int\<close>. Strings are \<open>string\<close>.

  Every player the class builds (in \<open>__init__\<close> and in \<open>add_player\<close>) has all four
  keys, so a player is a record of four fields, and \<open>data.get("mvp_count", 0)\<close> in
  \<open>get_standings\<close> reads a key that is there. A player without that key can only come
  from a file written by something else; such a file is outside these records (see the
  section on persistence).
\<close>

subsection \<open>Data\<close>

record player =
  points :: int
  games_played :: int
  mvp_count :: int
  color :: string

record game =
  timestamp :: string
  results :: "(string \<times> string) list"
  "notes" :: string
  mvp :: string
  deck_used :: string

record league =
  players :: "(string \<times> player) list"
  history :: "game list"

definition dict :: "('k \<times> 'v) list \<Rightarrow> bool" where
  "dict kvs = distinct (map fst kvs)"


text \<open>
  An exception leaves the object as it is at the moment of the raise, so an outcome
  carries the state in both cases.
\<close>

datatype py_error =
  KeyError | ZeroDivisionError | OverflowError | AttributeError | ValueError | JSONDecodeError

datatype 'a outcome = Returned 'a | Raised py_error 'a

subsection \<open>Construction and roster\<close>

definition team_colors :: "string list" where
  "team_colors = [''red'', ''blue'', ''green'', ''orange'', ''purple'', ''magenta'',
                  ''cyan'', ''yellow'', ''pink'']"

definition new_player :: "nat \<Rightarrow> player" where
  "new_player i = \<lparr>points = 0, games_played = 0, mvp_count = 0,
                    color = team_colors ! (i mod length team_colors)\<rparr>"

text \<open>
  \<open>__init__\<close>: a dict comprehension over \<open>enumerate(players)\<close>; a name given twice keeps
  its first position and takes the later value, which is what \<open>AList.update\<close> does.
\<close>

fun init_players :: "nat \<Rightarrow> string list \<Rightarrow> (string \<times> player) list \<Rightarrow> (string \<times> player) list" where
  "init_players i [] acc = acc"
| "init_players i (p # ps) acc = init_players (Suc i) ps (AList.update p (new_player i) acc)"

definition CommanderLeague :: "string list \<Rightarrow> league" where
  "CommanderLeague names = \<lparr>players = init_players 0 names [], history = []\<rparr>"

text \<open>\<open>add_player\<close>: \<open>len(self.players)\<close> is the number of keys.\<close>

definition add_player :: "string \<Rightarrow> league \<Rightarrow> league" where
  "add_player name s =
     (if name \<noteq> [] \<and> map_of (players s) name = None
      then s\<lparr>players := AList.update name (new_player (length (players s))) (players s)\<rparr>
      else s)"

definition remove_player :: "string \<Rightarrow> league \<Rightarrow> league" where
  "remove_player name s =
     (if map_of (players s) name \<noteq> None
      then s\<lparr>players := AList.delete name (players s)\<rparr>
      else s)"

text \<open>
  \<open>reset_league\<close>: the loop runs over the keys and stores three zeros in the dict found
  under each key.
\<close>

definition zero_stats :: "player \<Rightarrow> player" where
  "zero_stats d = d\<lparr>points := 0, games_played := 0, mvp_count := 0\<rparr>"

fun reset_loop :: "string list \<Rightarrow> (string \<times> player) list \<Rightarrow> (string \<times> player) list" where
  "reset_loop [] ps = ps"
| "reset_loop (k # ks) ps =
     reset_loop ks (case map_of ps k of
                      None \<Rightarrow> ps
                    | Some d \<Rightarrow> AList.update k (zero_stats d) ps)"

definition reset_league :: "league \<Rightarrow> league" where
  "reset_league s = s\<lparr>players := reset_loop (map fst (players s)) (players s), history := []\<rparr>"

subsection \<open>Recording a game\<close>

text \<open>\<open>placement_points.get(place, 0)\<close>: the table of the five tags, 0 for any other.\<close>

definition placement_table :: "(string \<times> int) list" where
  "placement_table = [(''1st'', 5), (''2nd'', 3), (''3rd'', 2), (''4th'', 1), (''5th+'', 0)]"

definition placement_points :: "string \<Rightarrow> int" where
  "placement_points place = (case map_of placement_table place of None \<Rightarrow> 0 | Some n \<Rightarrow> n)"

definition credit :: "string \<Rightarrow> player \<Rightarrow> player" where
  "credit place d = d\<lparr>points := points d + placement_points place,
                       games_played := games_played d + 1\<rparr>"

text \<open>
  The loop over \<open>results_dict.items()\<close>. \<open>self.players[player]\<close> raises \<open>KeyError\<close> for a
  name that is not in the roster; the loop stops there, with the players credited so far.
\<close>

fun credit_placements ::
  "(string \<times> string) list \<Rightarrow> (string \<times> player) list \<Rightarrow> py_error option \<times> (string \<times> player) list" where
  "credit_placements [] ps = (None, ps)"
| "credit_placements ((name, place) # rest) ps =
     (if place = ''Did Not Play'' then credit_placements rest ps
      else case map_of ps name of
             None \<Rightarrow> (Some KeyError, ps)
           | Some d \<Rightarrow> credit_placements rest (AList.update name (credit place d) ps))"

definition award_mvp :: "string \<Rightarrow> (string \<times> player) list \<Rightarrow> (string \<times> player) list" where
  "award_mvp mvp_arg ps =
     (if mvp_arg \<noteq> [] \<and> map_of ps mvp_arg \<noteq> None
      then (case map_of ps mvp_arg of
              None \<Rightarrow> ps
            | Some d \<Rightarrow> AList.update mvp_arg
                          (d\<lparr>points := points d + 1, mvp_count := mvp_count d + 1\<rparr>) ps)
      else ps)"

text \<open>The tags the dialog offers (\<open>placement_options\<close> in \<open>open_record_game_dialog\<close>).\<close>

definition placement_options :: "string list" where
  "placement_options = [''1st'', ''2nd'', ''3rd'', ''4th'', ''5th+'', ''Did Not Play'']"

text \<open>
  \<open>record_game_results\<close>. The timestamp is the formatted clock reading, an input of the
  model (\<open>now\<close>). The game is appended to the history before any player is credited.
\<close>

definition record_game_results ::
  "string \<Rightarrow> (string \<times> string) list \<Rightarrow> string \<Rightarrow> string \<Rightarrow> string \<Rightarrow> league \<Rightarrow> league outcome" where
  "record_game_results now results_dict notes_arg mvp_arg deck_arg s =
     (let g = \<lparr>timestamp = now, results = results_dict, notes = notes_arg,
                mvp = mvp_arg, deck_used = deck_arg\<rparr>;
          s1 = s\<lparr>history := history s @ [g]\<rparr>
      in case credit_placements results_dict (players s1) of
           (Some e, ps) \<Rightarrow> Raised e (s1\<lparr>players := ps\<rparr>)
         | (None, ps) \<Rightarrow> Returned (s1\<lparr>players := award_mvp mvp_arg ps\<rparr>))"

subsection \<open>Standings\<close>

text \<open>
  The average is \<open>points / games\<close>, Python's true division of two integers: the double
  nearest to the exact quotient (ties to even), \<open>OverflowError\<close> when that double would
  be beyond the largest finite one, \<open>ZeroDivisionError\<close> for a zero divisor. A double is
  represented by the rational number it denotes (so \<open>0.0\<close> and \<open>-0.0\<close> are both 0).
  When no game was played the average is the integer 0, not a float.
\<close>

datatype number = PyInt int | PyFloat rat

fun number_value :: "number \<Rightarrow> rat" where
  "number_value (PyInt i) = of_int i"
| "number_value (PyFloat r) = r"

function bit_length :: "int \<Rightarrow> nat" where
  "bit_length n = (if n \<le> 0 then 0 else Suc (bit_length (n div 2)))"
  by pat_completeness auto
termination
  by (relation "measure nat") auto

declare bit_length.simps [simp del]

definition pow2 :: "int \<Rightarrow> rat" where
  "pow2 e = (if 0 \<le> e then 2 ^ nat e else 1 / 2 ^ nat (- e))"

definition round_half_even :: "rat \<Rightarrow> int" where
  "round_half_even x =
     (let f = \<lfloor>x\<rfloor>; d = x - of_int f
      in if d < 1 / 2 then f
         else if 1 / 2 < d then f + 1
         else if even f then f else f + 1)"

text \<open>
  \<open>nearest_double a\<close> for a positive rational \<open>a\<close>: with \<open>2 ^ k \<le> a < 2 ^ (k + 1)\<close>, the
  spacing of the doubles around \<open>a\<close> is \<open>2 ^ (k - 52)\<close>, and never less than \<open>2 ^ - 1074\<close>
  (the subnormal range).
\<close>

definition nearest_double :: "rat \<Rightarrow> rat" where
  "nearest_double a =
     (let (n, d) = quotient_of a;
          k0 = int (bit_length n) - int (bit_length d);
          k = (if pow2 k0 \<le> a then k0 else k0 - 1);
          e = max (k - 52) (- 1074)
      in of_int (round_half_even (a / pow2 e)) * pow2 e)"

definition py_truediv :: "int \<Rightarrow> int \<Rightarrow> py_error + number" where
  "py_truediv a b =
     (if b = 0 then Inl ZeroDivisionError
      else let q = of_int a / of_int b; r = (if q = 0 then 0 else nearest_double \<bar>q\<bar>)
           in if pow2 1024 \<le> r then Inl OverflowError
              else Inr (PyFloat (if q < 0 then - r else r)))"

type_synonym standing = "string \<times> int \<times> int \<times> number \<times> int"

text \<open>Line 70: \<open>avg = (points / games) if games > 0 else 0\<close>.\<close>

definition average :: "int \<Rightarrow> int \<Rightarrow> py_error + number" where
  "average pts games = (if 0 < games then py_truediv pts games else Inr (PyInt 0))"

text \<open>The loop that builds \<open>standings\<close>: one tuple appended per entry of \<open>self.players\<close>.\<close>

fun standings_loop :: "(string \<times> player) list \<Rightarrow> standing list \<Rightarrow> py_error + standing list" where
  "standings_loop [] standings = Inr standings"
| "standings_loop ((name, d) # rest) standings =
     (case average (points d) (games_played d) of
        Inl e \<Rightarrow> Inl e
      | Inr avg \<Rightarrow>
          standings_loop rest
            (standings @ [(name, points d, games_played d, avg, mvp_count d)]))"

text \<open>The tuple the loop appends for one entry, when its average is computed.\<close>

definition standing_of :: "string \<times> player \<Rightarrow> standing" where
  "standing_of = (\<lambda>(name, d). (name, points d, games_played d,
                     projr (average (points d) (games_played d)), mvp_count d))"

text \<open>
  \<open>sorted(xs, key=f, reverse=True)\<close>: a stable sort in descending order of the key, where
  entries with equal keys keep their original order. Python obtains it by reversing the
  list, sorting it stably in ascending order and reversing the result.
\<close>

definition sorted_reverse :: "('a \<Rightarrow> 'k::linorder) \<Rightarrow> 'a list \<Rightarrow> 'a list" where
  "sorted_reverse f xs = rev (sort_key f (rev xs))"

definition games_key :: "standing \<Rightarrow> int" where
  "games_key x = fst (snd (snd x))"

definition average_key :: "standing \<Rightarrow> rat" where
  "average_key x = number_value (fst (snd (snd (snd x))))"

definition get_standings :: "string \<Rightarrow> league \<Rightarrow> py_error + standing list" where
  "get_standings sort_by s =
     (case standings_loop (players s) [] of
        Inl e \<Rightarrow> Inl e
      | Inr standings \<Rightarrow>
          if sort_by = ''games'' then Inr (sorted_reverse games_key standings)
          else Inr (sorted_reverse average_key standings))"

subsection \<open>Persistence\<close>

text \<open>
  \<open>json.dump\<close> and \<open>json.load\<close> belong to Python's library. They are modelled on the JSON
  document, not on its text: a file holds the document that was dumped into it, and
  loading gives back a Python value built from that document, where an object becomes a
  dict (a key written twice keeps its first position and its last value). The file
  system is a map from file names to file contents; opening a missing file for reading
  raises \<open>FileNotFoundError\<close>, the one exception \<open>load_from_file\<close> catches. Every file
  name can be opened for writing.
\<close>

datatype json =
  JNull | JBool bool | JInt int | JString string | JArray "json list"
  | JObject "(string \<times> json) list"

text \<open>
  The interpreter refuses to convert an integer to or from its decimal text when the
  text has more than \<open>sys.get_int_max_str_digits()\<close> digits, 4300 unless the interpreter
  is configured otherwise (CPython 3.11 and later): the conversion raises \<open>ValueError\<close>.
  \<open>json.dump\<close> converts every integer of the data with \<open>int.__repr__\<close>, and \<open>json.load\<close>
  every integer of the text with \<open>int\<close>.
\<close>

definition int_max_str_digits :: nat where
  "int_max_str_digits = 4300"

definition int_str_ok :: "int \<Rightarrow> bool" where
  "int_str_ok n = (\<bar>n\<bar> < 10 ^ int_max_str_digits)"

fun json_ints_ok :: "json \<Rightarrow> bool" where
  "json_ints_ok (JInt n) = int_str_ok n"
| "json_ints_ok (JArray js) = list_all json_ints_ok js"
| "json_ints_ok (JObject kvs) = list_all (\<lambda>(k, j). json_ints_ok j) kvs"
| "json_ints_ok _ = True"

text \<open>
  A file holds the document that was dumped into it, or, when \<open>json.dump\<close> raised on the
  way, what had been written until then: \<open>open(filename, 'w')\<close> has emptied the file and
  \<open>json.dump\<close> writes the text piece by piece, so the file is left with a proper
  beginning of the text of an object, which is not a JSON document.
\<close>

datatype contents = Document json | Truncated





definition dict_of_pairs :: "('k \<times> 'v) list \<Rightarrow> ('k \<times> 'v) list" where
  "dict_of_pairs kvs = foldl (\<lambda>acc (k, v). AList.update k v acc) [] kvs"

text \<open>
  \<open>load_from_file\<close> stores whatever \<open>data.get\<close> returns, of any shape. The records above
  hold only a league of the shape the class itself builds, so the loaded values are read
  back into them by the partial functions below; \<open>None\<close> stands for a document whose
  values the records cannot hold (the program would carry on with them, and fail or not
  at a later use).
\<close>

definition json_string :: "json \<Rightarrow> string option" where
  "json_string j = (case j of JString x \<Rightarrow> Some x | _ \<Rightarrow> None)"

definition json_int :: "json \<Rightarrow> int option" where
  "json_int j = (case j of JInt i \<Rightarrow> Some i | _ \<Rightarrow> None)"

definition field :: "(string \<times> json) list \<Rightarrow> string \<Rightarrow> (json \<Rightarrow> 'a option) \<Rightarrow> 'a option" where
  "field kvs k f = (case map_of kvs k of None \<Rightarrow> None | Some j \<Rightarrow> f j)"

definition entries :: "(json \<Rightarrow> 'a option) \<Rightarrow> (string \<times> json) list \<Rightarrow> (string \<times> 'a) list option" where
  "entries f kvs = those (map (\<lambda>(k, j). map_option (Pair k) (f j)) kvs)"

definition player_of_json :: "json \<Rightarrow> player option" where
  "player_of_json j =
     (case j of
        JObject kvs \<Rightarrow>
          (let d = dict_of_pairs kvs
           in case (field d ''points'' json_int, field d ''games_played'' json_int,
                    field d ''mvp_count'' json_int, field d ''color'' json_string) of
                (Some p, Some g, Some m, Some c) \<Rightarrow>
                  if length d = 4
                  then Some \<lparr>points = p, games_played = g, mvp_count = m, color = c\<rparr>
                  else None
              | _ \<Rightarrow> None)
      | _ \<Rightarrow> None)"

definition players_of_json :: "json \<Rightarrow> (string \<times> player) list option" where
  "players_of_json j =
     (case j of JObject kvs \<Rightarrow> entries player_of_json (dict_of_pairs kvs) | _ \<Rightarrow> None)"

definition results_of_json :: "json \<Rightarrow> (string \<times> string) list option" where
  "results_of_json j =
     (case j of JObject kvs \<Rightarrow> entries json_string (dict_of_pairs kvs) | _ \<Rightarrow> None)"

definition game_of_json :: "json \<Rightarrow> game option" where
  "game_of_json j =
     (case j of
        JObject kvs \<Rightarrow>
          (let d = dict_of_pairs kvs
           in case (field d ''timestamp'' json_string, field d ''results'' results_of_json,
                    field d ''notes'' json_string, field d ''mvp'' json_string,
                    field d ''deck_used'' json_string) of
                (Some t, Some r, Some n, Some m, Some u) \<Rightarrow>
                  if length d = 5
                  then Some \<lparr>timestamp = t, results = r, notes = n, mvp = m, deck_used = u\<rparr>
                  else None
              | _ \<Rightarrow> None)
      | _ \<Rightarrow> None)"

definition history_of_json :: "json \<Rightarrow> game list option" where
  "history_of_json j = (case j of JArray js \<Rightarrow> those (map game_of_json js) | _ \<Rightarrow> None)"

text \<open>
  \<open>load_from_file\<close>. The second component is what was printed. \<open>data.get\<close> exists on a
  dict only: for any other document the attribute lookup raises \<open>AttributeError\<close>, which
  is not caught. \<open>data.get("players", {})\<close> and \<open>data.get("history", [])\<close> fall back to
  the empty dict and the empty list when the key is missing. \<open>json.load\<close> raises
  \<open>JSONDecodeError\<close> on a file that holds no JSON document and \<open>ValueError\<close> on a document
  with an integer of more than 4300 digits; both leave the league as it was, and neither
  is caught.
\<close>

definition load_from_file ::
  "string \<Rightarrow> (string \<rightharpoonup> contents) \<Rightarrow> league \<Rightarrow> (league outcome \<times> string list) option" where
  "load_from_file filename fs s =
     (case fs filename of
        None \<Rightarrow> Some (Returned s, [''Save file not found. Starting new league.''])
      | Some Truncated \<Rightarrow> Some (Raised JSONDecodeError s, [])
      | Some (Document j) \<Rightarrow>
          if \<not> json_ints_ok j then Some (Raised ValueError s, [])
          else
            (case j of
               JObject kvs \<Rightarrow>
                 (let data = dict_of_pairs kvs
                  in case (case map_of data ''players'' of
                             None \<Rightarrow> Some [] | Some j \<Rightarrow> players_of_json j,
                           case map_of data ''history'' of
                             None \<Rightarrow> Some [] | Some j \<Rightarrow> history_of_json j) of
                       (Some ps, Some h) \<Rightarrow> Some (Returned (s\<lparr>players := ps, history := h\<rparr>), [])
                     | _ \<Rightarrow> None)
             | _ \<Rightarrow> Some (Raised AttributeError s, [])))"

subsection \<open>A league for the examples\<close>

definition example_league :: league where
  "example_league =
     \<lparr>players = [(''A'', \<lparr>points = 2, games_played = 1, mvp_count = 0, color = ''red''\<rparr>),
                 (''B'', \<lparr>points = 8, games_played = 2, mvp_count = 1, color = ''blue''\<rparr>),
                 (''C'', \<lparr>points = 0, games_played = 0, mvp_count = 0, color = ''green''\<rparr>)],
      history = [\<lparr>timestamp = ''2025-01-01 20:00:00'',
                  results = [(''A'', ''3rd''), (''B'', ''1st''), (''C'', ''Did Not Play'')],
                  notes = ''first'', mvp = '''', deck_used = ''''\<rparr>,
                 \<lparr>timestamp = ''2025-01-08 20:00:00'',
                  results = [(''A'', ''Did Not Play''), (''B'', ''3rd''), (''C'', ''Did Not Play'')],
                  notes = '''', mvp = ''B'', deck_used = ''Elves''\<rparr>]\<rparr>"

section \<open>Properties\<close>

subsection \<open>Association lists\<close>

lemma update_absent:
  "k \<notin> fst ` set al \<Longrightarrow> AList.update k v al = al @ [(k, v)]"
  by (induction al) auto

lemma update_present_map:
  "distinct (map fst al) \<Longrightarrow> k \<in> fst ` set al \<Longrightarrow>
   AList.update k v al = map (\<lambda>(n, x). if n = k then (n, v) else (n, x)) al"
proof (induction al)
  case Nil
  then show ?case by simp
next
  case (Cons a al)
  obtain n x where a: "a = (n, x)" by (cases a)
  show ?case
  proof (cases "n = k")
    case True
    with Cons.prems a have "k \<notin> fst ` set al" by auto
    then have "map (\<lambda>(n, x). if n = k then (n, v) else (n, x)) al = al"
      by (induction al) auto
    with True a show ?thesis by simp
  next
    case False
    with Cons a show ?thesis by auto
  qed
qed

lemma update_present_keys:
  "k \<in> fst ` set al \<Longrightarrow> map fst (AList.update k v al) = map fst al"
  by (simp add: update_keys)

lemma map_of_eq_None_keys: "map_of al k = None \<longleftrightarrow> k \<notin> fst ` set al"
  by (simp add: map_of_eq_None_iff)

lemma dict_length_card: "dict al \<Longrightarrow> length al = card (fst ` set al)"
  unfolding dict_def by (metis distinct_card length_map set_map)

subsection \<open>The table of placement points\<close>

lemma placement_points_table:
  "placement_points place =
     (if place = ''1st'' then 5 else if place = ''2nd'' then 3 else if place = ''3rd'' then 2
      else if place = ''4th'' then 1 else 0)"
  by (simp add: placement_points_def placement_table_def)

subsection \<open>The crediting loop\<close>

lemma credit_placements_keys:
  "map fst (snd (credit_placements rs ps)) = map fst ps"
proof (induction rs arbitrary: ps)
  case Nil
  then show ?case by simp
next
  case (Cons r rs)
  obtain n p where r: "r = (n, p)" by (cases r)
  show ?case
  proof (cases "p = ''Did Not Play''")
    case True
    with r Cons.IH show ?thesis by simp
  next
    case False
    show ?thesis
    proof (cases "map_of ps n")
      case None
      with False r show ?thesis by simp
    next
      case (Some d)
      then have "n \<in> fst ` set ps" by (metis map_of_eq_None_keys option.distinct(1))
      with False r Some Cons.IH [of "AList.update n (credit p d) ps"] show ?thesis
        by (simp add: update_present_keys)
    qed
  qed
qed

lemma credit_placements_ok:
  assumes "distinct (map fst rs)"
    and "\<forall>(n, p) \<in> set rs. p \<noteq> ''Did Not Play'' \<longrightarrow> map_of ps n \<noteq> None"
  shows "fst (credit_placements rs ps) = None \<and>
         (\<forall>n. map_of (snd (credit_placements rs ps)) n =
               (case map_of rs n of
                  None \<Rightarrow> map_of ps n
                | Some p \<Rightarrow> if p = ''Did Not Play'' then map_of ps n
                            else map_option (credit p) (map_of ps n)))"
  using assms
proof (induction rs arbitrary: ps)
  case Nil
  then show ?case by simp
next
  case (Cons r rs)
  obtain n p where r: "r = (n, p)" by (cases r)
  from Cons.prems r have dist: "distinct (map fst rs)" and fresh: "map_of rs n = None"
    by (auto simp: map_of_eq_None_iff)
  show ?case
  proof (cases "p = ''Did Not Play''")
    case True
    from Cons.prems(2) have "\<forall>(n, p) \<in> set rs. p \<noteq> ''Did Not Play'' \<longrightarrow> map_of ps n \<noteq> None"
      by simp
    from Cons.IH [OF dist this] True r fresh show ?thesis by auto
  next
    case False
    with Cons.prems r obtain d where d: "map_of ps n = Some d" by auto
    let ?ps = "AList.update n (credit p d) ps"
    from Cons.prems(2) have tail: "\<forall>(n', p') \<in> set rs. p' \<noteq> ''Did Not Play'' \<longrightarrow> map_of ps n' \<noteq> None"
      by simp
    have "\<forall>(n', p') \<in> set rs. p' \<noteq> ''Did Not Play'' \<longrightarrow> map_of ?ps n' \<noteq> None"
      using tail by (auto simp: update_conv')
    from Cons.IH [OF dist this] False r d fresh show ?thesis
      by (auto simp: update_conv' split: option.splits)
  qed
qed

lemma credit_placements_KeyError:
  assumes "\<forall>(n, p) \<in> set pre. p \<noteq> ''Did Not Play'' \<longrightarrow> map_of ps n \<noteq> None"
    and "place \<noteq> ''Did Not Play''" and "map_of ps name = None"
  shows "credit_placements (pre @ (name, place) # post) ps =
           (Some KeyError, snd (credit_placements pre ps))"
  using assms
proof (induction pre arbitrary: ps)
  case Nil
  then show ?case by simp
next
  case (Cons r pre)
  obtain n p where r: "r = (n, p)" by (cases r)
  show ?case
  proof (cases "p = ''Did Not Play''")
    case True
    with Cons r show ?thesis by simp
  next
    case False
    with Cons.prems r obtain d where d: "map_of ps n = Some d" by auto
    let ?ps = "AList.update n (credit p d) ps"
    from d Cons.prems(3) have ne: "n \<noteq> name" by auto
    from Cons.prems(1) have tail: "\<forall>(n', p') \<in> set pre. p' \<noteq> ''Did Not Play'' \<longrightarrow> map_of ps n' \<noteq> None"
      by simp
    have "\<forall>(n', p') \<in> set pre. p' \<noteq> ''Did Not Play'' \<longrightarrow> map_of ?ps n' \<noteq> None"
      using tail by (auto simp: update_conv')
    moreover have "map_of ?ps name = None"
      using Cons.prems(3) ne by (simp add: update_conv')
    ultimately show ?thesis
      using Cons.IH [of ?ps] Cons.prems(2) False r d by simp
  qed
qed

lemma award_mvp_keys: "map fst (award_mvp m ps) = map fst ps"
  by (auto simp: award_mvp_def update_present_keys map_of_eq_None_keys split: option.splits)

lemma award_mvp_lookup:
  "map_of (award_mvp m ps) n =
     (if n = m \<and> m \<noteq> []
      then map_option (\<lambda>d. d\<lparr>points := points d + 1, mvp_count := mvp_count d + 1\<rparr>) (map_of ps n)
      else map_of ps n)"
  by (auto simp: award_mvp_def update_conv' split: option.splits)

subsection \<open>The whole call\<close>

lemma record_game_results_returns:
  assumes "dict results_dict"
    and "\<forall>(n, p) \<in> set results_dict. p \<noteq> ''Did Not Play'' \<longrightarrow> map_of (players s) n \<noteq> None"
  shows "record_game_results now results_dict notes_arg mvp_arg deck_arg s =
           Returned \<lparr>players = award_mvp mvp_arg (snd (credit_placements results_dict (players s))),
                     history = history s @ [\<lparr>timestamp = now, results = results_dict,
                       notes = notes_arg, mvp = mvp_arg, deck_used = deck_arg\<rparr>]\<rparr>"
proof -
  from assms have "fst (credit_placements results_dict (players s)) = None"
    using credit_placements_ok [of results_dict "players s"] by (simp add: dict_def)
  then show ?thesis
    by (cases "credit_placements results_dict (players s)")
       (simp add: record_game_results_def Let_def)
qed

lemma returned_player:
  assumes "dict results_dict"
    and "\<forall>(n, p) \<in> set results_dict. p \<noteq> ''Did Not Play'' \<longrightarrow> map_of (players s) n \<noteq> None"
    and "map_of (players s) n = Some d"
  shows "map_of (award_mvp mvp_arg (snd (credit_placements results_dict (players s)))) n =
           Some (d\<lparr>points := points d
                      + (case map_of results_dict n of None \<Rightarrow> 0
                         | Some p \<Rightarrow> if p = ''Did Not Play'' then 0 else placement_points p)
                      + (if n = mvp_arg \<and> mvp_arg \<noteq> [] then 1 else 0),
                    games_played := games_played d
                      + (case map_of results_dict n of None \<Rightarrow> 0
                         | Some p \<Rightarrow> if p = ''Did Not Play'' then 0 else 1),
                    mvp_count := mvp_count d + (if n = mvp_arg \<and> mvp_arg \<noteq> [] then 1 else 0)\<rparr>)"
proof -
  from assms(1,2) have look: "map_of (snd (credit_placements results_dict (players s))) n =
      (case map_of results_dict n of
         None \<Rightarrow> map_of (players s) n
       | Some p \<Rightarrow> if p = ''Did Not Play'' then map_of (players s) n
                   else map_option (credit p) (map_of (players s) n))"
    using credit_placements_ok [of results_dict "players s"] by (simp add: dict_def)
  show ?thesis
  proof (cases "map_of results_dict n")
    case None
    with look assms(3) show ?thesis by (auto simp: award_mvp_lookup)
  next
    case (Some p)
    with look assms(3) show ?thesis by (auto simp: award_mvp_lookup credit_def)
  qed
qed

lemma placement_points_unknown:
  "place \<notin> set placement_options \<Longrightarrow> placement_points place = 0"
  by (simp add: placement_points_table placement_options_def)

lemma CommanderLeague_two:
  "CommanderLeague [''A'', ''B''] =
     \<lparr>players = [(''A'', \<lparr>points = 0, games_played = 0, mvp_count = 0, color = ''red''\<rparr>),
                 (''B'', \<lparr>points = 0, games_played = 0, mvp_count = 0, color = ''blue''\<rparr>)],
      history = []\<rparr>"
  by (simp add: CommanderLeague_def new_player_def team_colors_def)

lemma record_game_results_KeyError_example:
  "record_game_results ''2025-01-01 20:00:00'' [(''A'', ''1st''), (''Z'', ''2nd''), (''B'', ''3rd'')]
       '''' ''A'' '''' (CommanderLeague [''A'', ''B'']) =
     Raised KeyError
       \<lparr>players = [(''A'', \<lparr>points = 5, games_played = 1, mvp_count = 0, color = ''red''\<rparr>),
                   (''B'', \<lparr>points = 0, games_played = 0, mvp_count = 0, color = ''blue''\<rparr>)],
        history = [\<lparr>timestamp = ''2025-01-01 20:00:00'',
                    results = [(''A'', ''1st''), (''Z'', ''2nd''), (''B'', ''3rd'')],
                    notes = '''', mvp = ''A'', deck_used = ''''\<rparr>]\<rparr>"
  by (simp add: CommanderLeague_two record_game_results_def credit_def placement_points_table)

subsection \<open>Roster and reset\<close>

lemma length_team_colors: "length team_colors = 9"
  by (simp add: team_colors_def)

lemma reset_loop_map:
  "distinct (map fst ps) \<Longrightarrow> set ks \<subseteq> fst ` set ps \<Longrightarrow>
   reset_loop ks ps = map (\<lambda>(n, d). if n \<in> set ks then (n, zero_stats d) else (n, d)) ps"
proof (induction ks arbitrary: ps)
  case Nil
  then show ?case by (simp add: case_prod_unfold)
next
  case (Cons k ks)
  from Cons.prems(2) have k: "k \<in> fst ` set ps" by simp
  then obtain d where d: "map_of ps k = Some d"
    by (metis map_of_eq_None_keys not_None_eq)
  let ?ps = "AList.update k (zero_stats d) ps"
  have upd: "?ps = map (\<lambda>(n, x). if n = k then (n, zero_stats d) else (n, x)) ps"
    by (rule update_present_map [OF Cons.prems(1) k])
  have keys: "map fst ?ps = map fst ps"
    by (rule update_present_keys [OF k])
  have at_k: "\<And>x. (k, x) \<in> set ps \<Longrightarrow> x = d"
    using d Cons.prems(1) by simp
  from keys Cons.prems have "distinct (map fst ?ps)" "set ks \<subseteq> fst ` set ?ps"
    by (simp_all add: set_map [symmetric] del: set_map)
  from Cons.IH [OF this] d have "reset_loop (k # ks) ps =
      map (\<lambda>(n, d). if n \<in> set ks then (n, zero_stats d) else (n, d)) ?ps"
    by simp
  also have "\<dots> = map (\<lambda>(n, d). if n \<in> set (k # ks) then (n, zero_stats d) else (n, d)) ps"
    unfolding upd using at_k by (auto simp: zero_stats_def)
  finally show ?case .
qed

lemma reset_league_players:
  "dict (players s) \<Longrightarrow>
   players (reset_league s) = map (\<lambda>(n, d). (n, zero_stats d)) (players s)"
  by (force simp: reset_league_def dict_def reset_loop_map intro!: map_cong)

subsection \<open>Averages and standings\<close>

lemma py_truediv_error:
  "py_truediv a b = Inl e \<Longrightarrow> (b = 0 \<and> e = ZeroDivisionError) \<or> (b \<noteq> 0 \<and> e = OverflowError)"
  by (auto simp: py_truediv_def Let_def split: if_splits)

lemma average_error: "average pts games = Inl e \<Longrightarrow> e = OverflowError \<and> 0 < games"
  by (auto simp: average_def dest: py_truediv_error split: if_splits)

lemma average_no_games: "games \<le> 0 \<Longrightarrow> average pts games = Inr (PyInt 0)"
  by (simp add: average_def)

lemma standings_loop_Inr:
  "\<forall>(n, d) \<in> set ps. average (points d) (games_played d) \<noteq> Inl OverflowError \<Longrightarrow>
   standings_loop ps acc = Inr (acc @ map standing_of ps)"
proof (induction ps arbitrary: acc)
  case Nil
  then show ?case by simp
next
  case (Cons x ps)
  obtain n d where x: "x = (n, d)" by (cases x)
  from Cons.prems x have "average (points d) (games_played d) \<noteq> Inl OverflowError" by simp
  then obtain a where a: "average (points d) (games_played d) = Inr a"
    by (cases "average (points d) (games_played d)") (auto dest: average_error)
  from Cons.prems have "\<forall>(n, d) \<in> set ps. average (points d) (games_played d) \<noteq> Inl OverflowError"
    by simp
  from Cons.IH [OF this] x a show ?case by (simp add: standing_of_def)
qed

lemma standings_loop_Inl:
  "standings_loop ps acc = Inl e \<Longrightarrow> e = OverflowError"
proof (induction ps arbitrary: acc)
  case Nil
  then show ?case by simp
next
  case (Cons x ps)
  obtain n d where x: "x = (n, d)" by (cases x)
  show ?case
  proof (cases "average (points d) (games_played d)")
    case (Inl e')
    with Cons.prems x show ?thesis by (auto dest: average_error)
  next
    case (Inr a)
    with Cons.prems x show ?thesis by (auto dest: Cons.IH)
  qed
qed

lemma standings_loop_set:
  "standings_loop ps acc = Inr st \<Longrightarrow>
   set st = set acc \<union> standing_of ` set ps \<and>
   (\<forall>(n, d) \<in> set ps. average (points d) (games_played d) \<noteq> Inl OverflowError)"
proof (induction ps arbitrary: acc)
  case Nil
  then show ?case by auto
next
  case (Cons x ps)
  obtain n d where x: "x = (n, d)" by (cases x)
  show ?case
  proof (cases "average (points d) (games_played d)")
    case (Inl e')
    with Cons.prems x show ?thesis by simp
  next
    case (Inr a)
    with Cons.prems x have
      "standings_loop ps (acc @ [(n, points d, games_played d, a, mvp_count d)]) = Inr st"
      by simp
    from Cons.IH [OF this] x Inr show ?thesis by (auto simp: standing_of_def)
  qed
qed

lemma sorted_reverse_desc: "sorted_wrt (\<ge>) (map f (sorted_reverse f xs))"
proof -
  have "sorted (map f (sort_key f (rev xs)))" by (rule sorted_sort_key)
  then have "sorted_wrt (\<lambda>x y. y \<le> x) (rev (map f (sort_key f (rev xs))))"
    by (simp add: sorted_wrt_rev)
  then show ?thesis by (simp add: sorted_reverse_def rev_map)
qed

lemma mset_sorted_reverse: "mset (sorted_reverse f xs) = mset xs"
  by (simp add: sorted_reverse_def)

lemma set_sorted_reverse: "set (sorted_reverse f xs) = set xs"
  by (simp add: sorted_reverse_def)

lemma sorted_reverse_const: "(\<And>x. x \<in> set xs \<Longrightarrow> f x = c) \<Longrightarrow> sorted_reverse f xs = xs"
proof -
  assume c: "\<And>x. x \<in> set xs \<Longrightarrow> f x = c"
  have "map f (rev xs) = map (\<lambda>x. c) (rev xs)"
    by (rule map_cong) (simp_all add: c)
  then have "sorted (map f (rev xs))"
    by (simp add: map_replicate_const)
  then show ?thesis by (simp add: sorted_reverse_def sort_key_id_if_sorted)
qed

lemma get_standings_Inr:
  assumes "\<forall>(n, d) \<in> set (players s). average (points d) (games_played d) \<noteq> Inl OverflowError"
  shows "get_standings sort_by s =
           Inr (if sort_by = ''games'' then sorted_reverse games_key (map standing_of (players s))
                else sorted_reverse average_key (map standing_of (players s)))"
  using standings_loop_Inr [OF assms, of "[]"] by (simp add: get_standings_def)

lemma get_standings_Inl: "get_standings sort_by s = Inl e \<Longrightarrow> e = OverflowError"
  by (auto simp: get_standings_def split: sum.splits if_splits dest: standings_loop_Inl)

lemma get_standings_set:
  "get_standings sort_by s = Inr st \<Longrightarrow> set st = standing_of ` set (players s)"
  by (auto simp: get_standings_def set_sorted_reverse split: sum.splits if_splits
           dest!: standings_loop_set)

subsection \<open>Exact quotients: powers of two\<close>

lemma bit_length_pow2: "bit_length (2 ^ n) = Suc n"
proof (induction n)
  case 0
  show ?case by (simp add: bit_length.simps [of 1] bit_length.simps [of 0])
next
  case (Suc n)
  have "bit_length (2 ^ Suc n) = Suc (bit_length (2 ^ Suc n div 2))"
    by (subst bit_length.simps) simp
  with Suc show ?case by simp
qed

lemma round_half_even_int: "round_half_even (of_int m) = m"
  by (simp add: round_half_even_def)

lemma pow2_nat: "pow2 (int n) = 2 ^ n"
  by (simp add: pow2_def)

lemma pow2_shift: "2 ^ n / pow2 (int n - 52) = 2 ^ 52"
proof (cases "52 \<le> n")
  case True
  then have "pow2 (int n - 52) = 2 ^ (n - 52)"
    by (simp add: pow2_def nat_diff_distrib)
  moreover have "(2::rat) ^ n = 2 ^ (n - 52) * 2 ^ 52"
    using True power_add [of "2::rat" "n - 52" 52] by (simp del: power_numeral)
  ultimately show ?thesis by simp
next
  case False
  then have "pow2 (int n - 52) = 1 / 2 ^ (52 - n)"
    by (simp add: pow2_def nat_diff_distrib)
  moreover have "(2::rat) ^ 52 = 2 ^ n * 2 ^ (52 - n)"
    using False power_add [of "2::rat" n "52 - n"] by (simp del: power_numeral)
  ultimately show ?thesis by simp
qed

lemma nearest_double_pow2: "nearest_double (2 ^ n) = 2 ^ n"
proof -
  have q: "quotient_of ((2::rat) ^ n) = (2 ^ n, 1)"
    using quotient_of_int [of "2 ^ n"] by (simp add: Rat.of_int_def)
  have e: "max (int n - 52) (- 1074) = int n - 52" by simp
  have r: "round_half_even (2 ^ 52) = 2 ^ 52"
    using round_half_even_int [of "2 ^ 52"] by simp
  have "nearest_double (2 ^ n) = of_int (round_half_even (2 ^ n / pow2 (int n - 52))) * pow2 (int n - 52)"
    unfolding nearest_double_def q
    by (simp add: bit_length_pow2 bit_length.simps [of 1] bit_length.simps [of 0] pow2_nat Let_def e
             del: max.absorb1 max.absorb2 max.absorb3 max.absorb4)
  also have "\<dots> = 2 ^ 52 * pow2 (int n - 52)"
    by (simp only: pow2_shift r of_int_power of_int_numeral)
  also have "\<dots> = 2 ^ n"
    using pow2_shift [of n] by (simp add: field_simps pow2_def split: if_splits)
  finally show ?thesis .
qed

lemma py_truediv_pow2:
  "py_truediv (2 ^ n) 1 = (if 1024 \<le> n then Inl OverflowError else Inr (PyFloat (2 ^ n)))"
proof -
  have "pow2 1024 = 2 ^ 1024"
    using pow2_nat [of 1024] by simp
  then show ?thesis
    by (simp add: py_truediv_def nearest_double_pow2 Let_def del: power_numeral)
qed

lemma py_truediv_pow2_mult:
  assumes "0 < g"
  shows "py_truediv (2 ^ n * g) g =
           (if 1024 \<le> n then Inl OverflowError else Inr (PyFloat (2 ^ n)))"
proof -
  have p: "pow2 1024 = 2 ^ 1024"
    using pow2_nat [of 1024] by simp
  from assms have q: "(of_int (2 ^ n * g) :: rat) / of_int g = 2 ^ n"
    by simp
  from assms have "py_truediv (2 ^ n * g) g =
      (let q = (2::rat) ^ n; r = (if q = 0 then 0 else nearest_double \<bar>q\<bar>)
       in if pow2 1024 \<le> r then Inl OverflowError
          else Inr (PyFloat (if q < 0 then - r else r)))"
    unfolding py_truediv_def q by simp
  then show ?thesis
    by (simp add: p nearest_double_pow2 Let_def del: power_numeral)
qed

lemma average_2_1: "average 2 1 = Inr (PyFloat 2)"
  using py_truediv_pow2_mult [of 1 1] by (simp add: average_def)

lemma average_8_2: "average 8 2 = Inr (PyFloat 4)"
  using py_truediv_pow2_mult [of 2 2] by (simp add: average_def)

lemma example_league_in_range:
  "\<forall>(n, d) \<in> set (players example_league).
     average (points d) (games_played d) \<noteq> Inl OverflowError"
  by (simp add: example_league_def average_2_1 average_8_2 average_no_games)

lemma example_standings_games:
  "get_standings ''games'' example_league =
     Inr [(''B'', 8, 2, PyFloat 4, 1), (''A'', 2, 1, PyFloat 2, 0), (''C'', 0, 0, PyInt 0, 0)]"
  by (simp add: get_standings_def example_league_def average_2_1 average_8_2 average_no_games
                sorted_reverse_def games_key_def)

lemma example_standings_average:
  "get_standings ''average'' example_league =
     Inr [(''B'', 8, 2, PyFloat 4, 1), (''A'', 2, 1, PyFloat 2, 0), (''C'', 0, 0, PyInt 0, 0)]"
  by (simp add: get_standings_def example_league_def average_2_1 average_8_2 average_no_games
                sorted_reverse_def average_key_def)

subsection \<open>Saving and loading\<close>























subsection \<open>Quotients within the float range\<close>

text \<open>
  The nearest double of a positive \<open>a\<close> is at most \<open>a\<close> plus half the spacing of the doubles
  around it, so a quotient below \<open>2 ^ 1023\<close> in magnitude never overflows.
\<close>

lemma pow2_powi: "pow2 e = 2 powi e"
  by (simp add: pow2_def power_int_def inverse_eq_divide power_one_over)

lemma pow2_pos: "0 < pow2 e"
  by (simp add: pow2_powi)

lemma pow2_mono: "i \<le> j \<Longrightarrow> pow2 i \<le> pow2 j"
  by (simp add: pow2_powi power_int_increasing)

lemma pow2_diff: "pow2 (i - j) = pow2 i / pow2 j"
  by (simp add: pow2_powi power_int_diff)

lemma bit_length_bounds:
  "0 < n \<Longrightarrow> 2 ^ (bit_length n - 1) \<le> n \<and> n < 2 ^ bit_length n"
proof (induction n rule: bit_length.induct)
  case (1 n)
  from "1.prems" have bl: "bit_length n = Suc (bit_length (n div 2))"
    by (subst bit_length.simps) simp
  show ?case
  proof (cases "n div 2 = 0")
    case True
    with "1.prems" have "n = 1" by presburger
    then show ?thesis
      by (simp add: bit_length.simps [of 1] bit_length.simps [of 0])
  next
    case False
    with "1.prems" have pos: "0 < n div 2" by presburger
    from "1.IH" [OF _ pos] "1.prems"
    have ih: "2 ^ (bit_length (n div 2) - 1) \<le> n div 2" "n div 2 < 2 ^ bit_length (n div 2)"
      by auto
    from pos have "bit_length (n div 2) \<noteq> 0"
      by (subst bit_length.simps) simp
    then have "(2::int) ^ bit_length (n div 2) = 2 * 2 ^ (bit_length (n div 2) - 1)"
      by (cases "bit_length (n div 2)") simp_all
    with ih have "2 ^ bit_length (n div 2) \<le> 2 * (n div 2)" by simp
    also have "\<dots> \<le> n" by presburger
    finally have lo: "2 ^ (bit_length n - 1) \<le> n" by (simp add: bl)
    from ih(2) have "2 * (n div 2) + 2 \<le> 2 * 2 ^ bit_length (n div 2)" by simp
    moreover have "n < 2 * (n div 2) + 2" by presburger
    ultimately have hi: "n < 2 ^ bit_length n" by (simp add: bl)
    from lo hi show ?thesis ..
  qed
qed

lemma round_half_even_le: "of_int (round_half_even x) \<le> x + 1 / 2"
proof -
  have f: "of_int \<lfloor>x\<rfloor> \<le> x" "x < of_int \<lfloor>x\<rfloor> + 1"
    by linarith+
  consider "x - of_int \<lfloor>x\<rfloor> < 1 / 2" | "1 / 2 < x - of_int \<lfloor>x\<rfloor>"
    | "x - of_int \<lfloor>x\<rfloor> = 1 / 2" by linarith
  then show ?thesis
  proof cases
    case 1
    then have "round_half_even x = \<lfloor>x\<rfloor>"
      by (simp add: round_half_even_def Let_def)
    with f show ?thesis by linarith
  next
    case 2
    then have "round_half_even x = \<lfloor>x\<rfloor> + 1"
      by (simp add: round_half_even_def Let_def)
    with 2 show ?thesis by linarith
  next
    case 3
    then have "round_half_even x = \<lfloor>x\<rfloor> \<or> round_half_even x = \<lfloor>x\<rfloor> + 1"
      by (simp add: round_half_even_def Let_def)
    with 3 f show ?thesis by (elim disjE) linarith+
  qed
qed

lemma nearest_double_le:
  assumes "0 < a"
  shows "nearest_double a \<le> a + max (a / 2 ^ 53) (pow2 (- 1075))"
proof -
  obtain n d where q: "quotient_of a = (n, d)" by (cases "quotient_of a")
  from q have d: "0 < d" by (rule quotient_of_denom_pos)
  from q have a: "a = of_int n / of_int d" by (rule quotient_of_div)
  from assms a d have n: "0 < n" by (simp add: zero_less_divide_iff)
  define k0 where "k0 = int (bit_length n) - int (bit_length d)"
  define k where "k = (if pow2 k0 \<le> a then k0 else k0 - 1)"
  define e where "e = max (k - 52) (- 1074)"
  have nd: "nearest_double a = of_int (round_half_even (a / pow2 e)) * pow2 e"
    by (simp add: nearest_double_def q k0_def k_def e_def Let_def)
  have low: "pow2 (k0 - 1) \<le> a"
  proof -
    from bit_length_bounds [OF n] have "(2::int) ^ (bit_length n - 1) \<le> n" by simp
    then have "(of_int (2 ^ (bit_length n - 1)) :: rat) \<le> of_int n"
      by (simp only: of_int_le_iff)
    then have ln: "pow2 (int (bit_length n) - 1) \<le> of_int n"
      using n bit_length_bounds [OF n]
      by (cases "bit_length n") (simp_all add: pow2_def)
    from bit_length_bounds [OF d] have "d < 2 ^ bit_length d" by simp
    then have "(of_int d :: rat) < of_int (2 ^ bit_length d)"
      by (simp only: of_int_less_iff)
    then have ld: "of_int d \<le> pow2 (int (bit_length d))"
      by (simp add: pow2_def)
    have "pow2 (k0 - 1) = pow2 (int (bit_length n) - 1) / pow2 (int (bit_length d))"
      unfolding k0_def using pow2_diff [of "int (bit_length n) - 1" "int (bit_length d)"]
      by (simp add: algebra_simps)
    also have "\<dots> \<le> of_int n / of_int d"
      using ln ld d n pow2_pos [of "int (bit_length d)"]
      by (intro frac_le) simp_all
    finally show ?thesis by (simp add: a)
  qed
  have "pow2 k \<le> a"
    using low by (simp add: k_def)
  then have "pow2 (k - 52) \<le> a / 2 ^ 52"
    using pow2_diff [of k 52] by (simp add: pow2_def [of 52] divide_right_mono)
  then have pe: "pow2 e \<le> max (a / 2 ^ 52) (pow2 (- 1074))"
    by (auto simp: e_def max_def)
  have "nearest_double a \<le> (a / pow2 e + 1 / 2) * pow2 e"
    unfolding nd using round_half_even_le [of "a / pow2 e"] pow2_pos [of e]
    by (simp add: mult_right_mono)
  also have "\<dots> = a + pow2 e / 2"
    using pow2_pos [of e] by (simp add: field_simps)
  also have "\<dots> \<le> a + max (a / 2 ^ 52) (pow2 (- 1074)) / 2"
    using pe by simp
  also have "max (a / 2 ^ 52) (pow2 (- 1074)) / 2 = max (a / 2 ^ 53) (pow2 (- 1075))"
    by (simp add: max_def pow2_def field_simps)
  finally show ?thesis .
qed

lemma nearest_double_less:
  assumes "0 < a" and "a < B" and "1 \<le> B"
  shows "nearest_double a < 2 * B"
proof -
  from assms(1) have "a / 2 ^ 53 \<le> a / 1"
    by (intro divide_left_mono) simp_all
  with assms(2) have 1: "a / 2 ^ 53 \<le> B" by simp
  have "pow2 (- 1075) \<le> pow2 0" by (rule pow2_mono) simp
  also have "\<dots> = 1" by (simp add: pow2_def)
  finally have 2: "pow2 (- 1075) \<le> B" using assms(3) by simp
  from 1 2 have "max (a / 2 ^ 53) (pow2 (- 1075)) \<le> B" by simp
  with nearest_double_le [OF assms(1)] assms(2) show ?thesis by linarith
qed

lemma py_truediv_in_range:
  assumes "0 < g" and "\<bar>p\<bar> < 2 ^ 1023 * g"
  shows "py_truediv p g \<noteq> Inl OverflowError"
proof -
  define q :: rat where "q = of_int p / of_int g"
  define B :: rat where "B = 2 ^ 1023"
  have B1: "1 \<le> B" unfolding B_def by (rule one_le_power) simp
  have "pow2 1024 = 2 ^ Suc 1023"
    by (simp add: pow2_def del: power_numeral)
  then have p1024: "pow2 1024 = 2 * B"
    unfolding B_def by (simp only: power_Suc)
  have small: "nearest_double \<bar>q\<bar> < pow2 1024" if "q \<noteq> 0"
  proof -
    from that have pos: "0 < \<bar>q\<bar>" by simp
    from assms(2) have "(of_int \<bar>p\<bar> :: rat) < of_int (2 ^ 1023 * g)"
      by (simp only: of_int_less_iff)
    then have "\<bar>of_int p :: rat\<bar> < B * of_int g"
      unfolding B_def by (simp only: of_int_abs of_int_mult of_int_power of_int_numeral)
    with assms(1) have a: "\<bar>q\<bar> < B"
      by (simp add: q_def pos_divide_less_eq)
    from nearest_double_less [OF pos a B1] show ?thesis
      by (simp only: p1024)
  qed
  from assms(1) have g: "g \<noteq> 0" by simp
  have q: "(of_int p :: rat) / of_int g = q" by (simp add: q_def)
  show ?thesis
  proof (cases "q = 0")
    case True
    with g pow2_pos [of 1024] show ?thesis
      by (simp add: py_truediv_def q Let_def)
  next
    case False
    from small [OF False] g False show ?thesis
      by (simp add: py_truediv_def q Let_def)
  qed
qed

lemma average_in_range:
  "games \<le> 0 \<or> \<bar>pts\<bar> < 2 ^ 1023 * games \<Longrightarrow> average pts games \<noteq> Inl OverflowError"
  using py_truediv_in_range [of games pts] by (auto simp: average_def simp del: power_numeral)

section \<open>Claims\<close>

subsection \<open>Loading when the save file is missing\<close>

text \<open>
  C6. For every league state, \<open>load_from_file\<close> on a file name that does not exist
  returns normally (no exception reaches the caller), leaves the players and the history
  as they were, and prints the diagnostic line.
\<close>

theorem load_from_file_missing:
  "fs filename = None \<Longrightarrow>
   load_from_file filename fs s =
     Some (Returned s, [''Save file not found. Starting new league.''])"
  by (simp add: load_from_file_def)

theorem load_from_file_missing_witness:
  "(Map.empty :: string \<rightharpoonup> contents) ''league_scores.json'' = None \<and>
   load_from_file ''league_scores.json'' Map.empty (CommanderLeague [''Mike'', ''Mez'']) =
     Some (Returned (CommanderLeague [''Mike'', ''Mez'']),
           [''Save file not found. Starting new league.''])"
  using load_from_file_missing [of Map.empty "''league_scores.json''" "CommanderLeague [''Mike'', ''Mez'']"]
  by simp

subsection \<open>Recording a game\<close>

text \<open>
  The documented input of \<open>record_game_results\<close> is a dict from the rostered names to
  placement tags. The theorems about a call that completes assume of the results only
  that it is a dict and that no name with a placement other than "Did Not Play" is
  missing from the roster (such a name makes the call raise, see C9); under these two
  conditions they show that the call returns.
\<close>

text \<open>
  C1, as amended. For a call that completes, a rostered player mapped to a valid tag
  other than "Did Not Play" has \<open>games_played\<close> increased by exactly 1 and \<open>points\<close>
  increased by the fixed award (1st 5, 2nd 3, 3rd 2, 4th 1, 5th+ 0), plus 1 if that
  player is the non-empty \<open>mvp\<close> argument. A player placed "Did Not Play" has
  \<open>games_played\<close> unchanged, and has \<open>points\<close> and \<open>mvp_count\<close> unchanged unless that
  player is the \<open>mvp\<close> argument, in which case both grow by 1.

  The claim as stated (exactly the award; a player who did not play is unchanged) fails
  when the most valuable player is named: the counterexample below gives the point and
  the count to a player who did not play.
\<close>

theorem record_game_results_placements:
  assumes "dict results_dict"
    and "\<forall>(n, p) \<in> set results_dict. p \<noteq> ''Did Not Play'' \<longrightarrow> map_of (players s) n \<noteq> None"
    and "(name, place) \<in> set results_dict"
    and "place \<in> set placement_options"
    and "map_of (players s) name = Some d"
  shows "\<exists>s' d'.
           record_game_results now results_dict notes_arg mvp_arg deck_arg s = Returned s' \<and>
           map_of (players s') name = Some d' \<and>
           (place \<noteq> ''Did Not Play'' \<longrightarrow>
              games_played d' = games_played d + 1 \<and>
              points d' = points d
                + (if place = ''1st'' then 5 else if place = ''2nd'' then 3
                   else if place = ''3rd'' then 2 else if place = ''4th'' then 1 else 0)
                + (if name = mvp_arg \<and> mvp_arg \<noteq> [] then 1 else 0)) \<and>
           (place = ''Did Not Play'' \<longrightarrow>
              games_played d' = games_played d \<and>
              points d' = points d + (if name = mvp_arg \<and> mvp_arg \<noteq> [] then 1 else 0) \<and>
              mvp_count d' = mvp_count d + (if name = mvp_arg \<and> mvp_arg \<noteq> [] then 1 else 0))"
proof -
  from assms(1,3) have look: "map_of results_dict name = Some place"
    by (simp add: dict_def)
  note ret = record_game_results_returns [OF assms(1,2), of now notes_arg mvp_arg deck_arg]
  note pl = returned_player [OF assms(1,2,5), of mvp_arg]
  show ?thesis
    unfolding ret using pl look
    by (auto simp: placement_points_table)
qed

theorem record_game_results_placements_witness:
  "dict [(''A'', ''1st''), (''B'', ''Did Not Play'')] \<and>
   list_all (\<lambda>(n, p). p \<noteq> ''Did Not Play'' \<longrightarrow> map_of (players (CommanderLeague [''A'', ''B''])) n \<noteq> None)
      [(''A'', ''1st''), (''B'', ''Did Not Play'')] \<and>
   (''A'', ''1st'') \<in> set [(''A'', ''1st''), (''B'', ''Did Not Play'')] \<and>
   ''1st'' \<in> set placement_options \<and>
   map_of (players (CommanderLeague [''A'', ''B''])) ''A'' =
     Some \<lparr>points = 0, games_played = 0, mvp_count = 0, color = ''red''\<rparr> \<and>
   (\<exists>s' d'.
      record_game_results ''2025-01-01 20:00:00'' [(''A'', ''1st''), (''B'', ''Did Not Play'')]
        '''' ''A'' '''' (CommanderLeague [''A'', ''B'']) = Returned s' \<and>
      map_of (players s') ''A'' = Some d' \<and> games_played d' = 1 \<and> points d' = 6)"
proof -
  have h1: "dict [(''A'', ''1st''), (''B'', ''Did Not Play'')]"
    by (simp add: dict_def)
  have h2: "\<forall>(n, p) \<in> set [(''A'', ''1st''), (''B'', ''Did Not Play'')].
      p \<noteq> ''Did Not Play'' \<longrightarrow> map_of (players (CommanderLeague [''A'', ''B''])) n \<noteq> None"
    by (simp add: CommanderLeague_two)
  have h2': "list_all (\<lambda>(n, p). p \<noteq> ''Did Not Play'' \<longrightarrow> map_of (players (CommanderLeague [''A'', ''B''])) n \<noteq> None) [(''A'', ''1st''), (''B'', ''Did Not Play'')]"
    using h2 by (simp add: list_all_iff)
  have h3: "(''A'', ''1st'') \<in> set [(''A'', ''1st''), (''B'', ''Did Not Play'')]"
    by simp
  have h4: "''1st'' \<in> set placement_options"
    by (simp add: placement_options_def)
  have h5: "map_of (players (CommanderLeague [''A'', ''B''])) ''A'' =
     Some \<lparr>points = 0, games_played = 0, mvp_count = 0, color = ''red''\<rparr>"
    by (simp add: CommanderLeague_two)
  from record_game_results_placements [OF h1 h2 h3 h4 h5,
      of "''2025-01-01 20:00:00''" "''''" "''A''" "''''"]
  have "\<exists>s' d'.
      record_game_results ''2025-01-01 20:00:00'' [(''A'', ''1st''), (''B'', ''Did Not Play'')]
        '''' ''A'' '''' (CommanderLeague [''A'', ''B'']) = Returned s' \<and>
      map_of (players s') ''A'' = Some d' \<and> games_played d' = 1 \<and> points d' = 6"
    by simp
  with h1 h2' h3 h4 h5 show ?thesis by blast
qed

theorem record_game_results_placements_counterexample:
  "record_game_results ''2025-01-01 20:00:00'' [(''A'', ''Did Not Play''), (''B'', ''1st'')]
       '''' ''A'' '''' (CommanderLeague [''A'', ''B'']) =
     Returned
       \<lparr>players = [(''A'', \<lparr>points = 1, games_played = 0, mvp_count = 1, color = ''red''\<rparr>),
                   (''B'', \<lparr>points = 5, games_played = 1, mvp_count = 0, color = ''blue''\<rparr>)],
        history = [\<lparr>timestamp = ''2025-01-01 20:00:00'',
                    results = [(''A'', ''Did Not Play''), (''B'', ''1st'')],
                    notes = '''', mvp = ''A'', deck_used = ''''\<rparr>]\<rparr> \<and>
   players (CommanderLeague [''A'', ''B'']) =
     [(''A'', \<lparr>points = 0, games_played = 0, mvp_count = 0, color = ''red''\<rparr>),
      (''B'', \<lparr>points = 0, games_played = 0, mvp_count = 0, color = ''blue''\<rparr>)]"
  by (simp add: CommanderLeague_two record_game_results_def award_mvp_def credit_def
                placement_points_table)

text \<open>
  C2. For every call that completes, that is, whose results are a dict in which no name
  with a placement other than "Did Not Play" is missing from the roster: the call
  returns, and a non-empty \<open>mvp\<close> argument that is a rostered name gives that player
  exactly 1 point more than the placement alone and 1 more \<open>mvp_count\<close>, whatever the
  player's placement (also none, and "Did Not Play"); every other player gets the
  placement points only and keeps \<open>mvp_count\<close>. When \<open>mvp\<close> is empty or not a rostered
  name, no rostered player is the one singled out, so nobody's points or count change on
  its account.

  It does not hold for every call: when a name with a placement is missing from the
  roster, line 57 raises \<open>KeyError\<close> before the block of lines 60-62 is reached, and a
  rostered, non-empty \<open>mvp\<close> keeps its points and its \<open>mvp_count\<close>.
\<close>

theorem record_game_results_mvp:
  assumes "dict results_dict"
    and "\<forall>(n, p) \<in> set results_dict. p \<noteq> ''Did Not Play'' \<longrightarrow> map_of (players s) n \<noteq> None"
  shows "\<exists>s'.
           record_game_results now results_dict notes_arg mvp_arg deck_arg s = Returned s' \<and>
           (\<forall>n d. map_of (players s) n = Some d \<longrightarrow>
              (\<exists>d'. map_of (players s') n = Some d' \<and>
                 points d' = points d
                   + (case map_of results_dict n of
                        None \<Rightarrow> 0
                      | Some p \<Rightarrow> if p = ''Did Not Play'' then 0 else placement_points p)
                   + (if n = mvp_arg \<and> mvp_arg \<noteq> [] then 1 else 0) \<and>
                 mvp_count d' = mvp_count d + (if n = mvp_arg \<and> mvp_arg \<noteq> [] then 1 else 0)))"
  unfolding record_game_results_returns [OF assms, of now notes_arg mvp_arg deck_arg]
  using returned_player [OF assms, of _ _ mvp_arg]
  by auto

theorem record_game_results_mvp_witness:
  "dict [(''A'', ''Did Not Play''), (''B'', ''1st'')] \<and>
   list_all (\<lambda>(n, p). p \<noteq> ''Did Not Play'' \<longrightarrow> map_of (players (CommanderLeague [''A'', ''B''])) n \<noteq> None)
      [(''A'', ''Did Not Play''), (''B'', ''1st'')] \<and>
   (\<exists>s'.
      record_game_results ''2025-01-01 20:00:00'' [(''A'', ''Did Not Play''), (''B'', ''1st'')]
        '''' ''A'' '''' (CommanderLeague [''A'', ''B'']) = Returned s' \<and>
      (\<exists>d'. map_of (players s') ''A'' = Some d' \<and> points d' = 1 \<and> mvp_count d' = 1) \<and>
      (\<exists>d'. map_of (players s') ''B'' = Some d' \<and> points d' = 5 \<and> mvp_count d' = 0))"
proof -
  have h1: "dict [(''A'', ''Did Not Play''), (''B'', ''1st'')]"
    by (simp add: dict_def)
  have h2: "\<forall>(n, p) \<in> set [(''A'', ''Did Not Play''), (''B'', ''1st'')].
      p \<noteq> ''Did Not Play'' \<longrightarrow> map_of (players (CommanderLeague [''A'', ''B''])) n \<noteq> None"
    by (simp add: CommanderLeague_two)
  have h2': "list_all (\<lambda>(n, p). p \<noteq> ''Did Not Play'' \<longrightarrow> map_of (players (CommanderLeague [''A'', ''B''])) n \<noteq> None) [(''A'', ''Did Not Play''), (''B'', ''1st'')]"
    using h2 by (simp add: list_all_iff)
  from record_game_results_mvp [OF h1 h2, of "''2025-01-01 20:00:00''" "''''" "''A''" "''''"]
  obtain s' where ret: "record_game_results ''2025-01-01 20:00:00''
        [(''A'', ''Did Not Play''), (''B'', ''1st'')] '''' ''A'' ''''
        (CommanderLeague [''A'', ''B'']) = Returned s'"
    and all: "\<And>n d. map_of (players (CommanderLeague [''A'', ''B''])) n = Some d \<Longrightarrow>
       \<exists>d'. map_of (players s') n = Some d' \<and>
          points d' = points d
            + (case map_of [(''A'', ''Did Not Play''), (''B'', ''1st'')] n of
                 None \<Rightarrow> 0
               | Some p \<Rightarrow> if p = ''Did Not Play'' then 0 else placement_points p)
            + (if n = ''A'' \<and> ''A'' \<noteq> [] then 1 else 0) \<and>
          mvp_count d' = mvp_count d + (if n = ''A'' \<and> ''A'' \<noteq> [] then 1 else 0)"
    by blast
  have a: "\<exists>d'. map_of (players s') ''A'' = Some d' \<and> points d' = 1 \<and> mvp_count d' = 1"
    using all [of "''A''" "\<lparr>points = 0, games_played = 0, mvp_count = 0, color = ''red''\<rparr>"]
    by (simp add: CommanderLeague_two)
  have b: "\<exists>d'. map_of (players s') ''B'' = Some d' \<and> points d' = 5 \<and> mvp_count d' = 0"
    using all [of "''B''" "\<lparr>points = 0, games_played = 0, mvp_count = 0, color = ''blue''\<rparr>"]
    by (simp add: CommanderLeague_two placement_points_table)
  from h1 h2' ret a b show ?thesis by blast
qed

theorem record_game_results_mvp_counterexample:
  "map_of (players (CommanderLeague [''A'', ''B''])) ''A'' =
     Some \<lparr>points = 0, games_played = 0, mvp_count = 0, color = ''red''\<rparr> \<and>
   record_game_results ''2025-01-01 20:00:00'' [(''Z'', ''1st''), (''A'', ''2nd'')]
       '''' ''A'' '''' (CommanderLeague [''A'', ''B'']) =
     Raised KeyError
       \<lparr>players = [(''A'', \<lparr>points = 0, games_played = 0, mvp_count = 0, color = ''red''\<rparr>),
                   (''B'', \<lparr>points = 0, games_played = 0, mvp_count = 0, color = ''blue''\<rparr>)],
        history = [\<lparr>timestamp = ''2025-01-01 20:00:00'',
                    results = [(''Z'', ''1st''), (''A'', ''2nd'')],
                    notes = '''', mvp = ''A'', deck_used = ''''\<rparr>]\<rparr>"
  by (simp add: CommanderLeague_two record_game_results_def credit_def placement_points_table)

text \<open>
  C9. When the results contain a name that is not in the roster, with a placement other
  than "Did Not Play", the call raises \<open>KeyError\<close> at the first such entry. The state
  left behind has the new game appended to the history and the players of the entries
  before that one already credited (and no most valuable player awarded): the operation
  is not atomic.
\<close>

theorem record_game_results_KeyError:
  assumes "\<exists>(n, p) \<in> set results_dict. p \<noteq> ''Did Not Play'' \<and> map_of (players s) n = None"
  shows "\<exists>pre name place post.
           results_dict = pre @ (name, place) # post \<and>
           place \<noteq> ''Did Not Play'' \<and> map_of (players s) name = None \<and>
           (\<forall>(n, p) \<in> set pre. p \<noteq> ''Did Not Play'' \<longrightarrow> map_of (players s) n \<noteq> None) \<and>
           record_game_results now results_dict notes_arg mvp_arg deck_arg s =
             Raised KeyError
               \<lparr>players = snd (credit_placements pre (players s)),
                history = history s @ [\<lparr>timestamp = now, results = results_dict,
                  notes = notes_arg, mvp = mvp_arg, deck_used = deck_arg\<rparr>]\<rparr> \<and>
           (dict results_dict \<longrightarrow>
              (\<forall>n p d. (n, p) \<in> set pre \<longrightarrow> p \<noteq> ''Did Not Play'' \<longrightarrow>
                 map_of (players s) n = Some d \<longrightarrow>
                 map_of (snd (credit_placements pre (players s))) n =
                   Some (d\<lparr>points := points d + placement_points p,
                           games_played := games_played d + 1\<rparr>)))"
proof -
  let ?bad = "\<lambda>(n, p). p \<noteq> ''Did Not Play'' \<and> map_of (players s) n = None"
  from assms have "\<exists>x \<in> set results_dict. ?bad x" .
  then obtain pre x post where split: "results_dict = pre @ x # post"
    and bad: "?bad x" and first: "\<forall>y \<in> set pre. \<not> ?bad y"
    by (auto dest!: split_list_first_prop)
  obtain name place where x: "x = (name, place)" by (cases x)
  from bad x have place: "place \<noteq> ''Did Not Play''" and name: "map_of (players s) name = None"
    by auto
  from first have ok: "\<forall>(n, p) \<in> set pre. p \<noteq> ''Did Not Play'' \<longrightarrow> map_of (players s) n \<noteq> None"
    by auto
  have loop: "credit_placements results_dict (players s) =
                (Some KeyError, snd (credit_placements pre (players s)))"
    unfolding split x by (rule credit_placements_KeyError [OF ok place name])
  have raised: "record_game_results now results_dict notes_arg mvp_arg deck_arg s =
             Raised KeyError
               \<lparr>players = snd (credit_placements pre (players s)),
                history = history s @ [\<lparr>timestamp = now, results = results_dict,
                  notes = notes_arg, mvp = mvp_arg, deck_used = deck_arg\<rparr>]\<rparr>"
    by (simp add: record_game_results_def Let_def loop)
  have earlier: "map_of (snd (credit_placements pre (players s))) n =
                   Some (d\<lparr>points := points d + placement_points p,
                           games_played := games_played d + 1\<rparr>)"
    if "dict results_dict" "(n, p) \<in> set pre" "p \<noteq> ''Did Not Play''"
       "map_of (players s) n = Some d" for n p d
  proof -
    from that(1) split have dpre: "distinct (map fst pre)" by (simp add: dict_def)
    with that(2) have "map_of pre n = Some p" by simp
    with credit_placements_ok [OF dpre ok] that(3,4) show ?thesis
      by (simp add: credit_def)
  qed
  from split x place name ok raised earlier show ?thesis by blast
qed

theorem record_game_results_KeyError_witness:
  "(\<exists>(n, p) \<in> set [(''A'', ''1st''), (''Z'', ''2nd''), (''B'', ''3rd'')].
      p \<noteq> ''Did Not Play'' \<and> map_of (players (CommanderLeague [''A'', ''B''])) n = None) \<and>
   (\<exists>pre name place post.
      [(''A'', ''1st''), (''Z'', ''2nd''), (''B'', ''3rd'')] = pre @ (name, place) # post \<and>
      record_game_results ''2025-01-01 20:00:00'' [(''A'', ''1st''), (''Z'', ''2nd''), (''B'', ''3rd'')]
          '''' ''A'' '''' (CommanderLeague [''A'', ''B'']) =
        Raised KeyError
          \<lparr>players = snd (credit_placements pre (players (CommanderLeague [''A'', ''B'']))),
           history = history (CommanderLeague [''A'', ''B'']) @
             [\<lparr>timestamp = ''2025-01-01 20:00:00'',
               results = [(''A'', ''1st''), (''Z'', ''2nd''), (''B'', ''3rd'')],
               notes = '''', mvp = ''A'', deck_used = ''''\<rparr>]\<rparr>)"
proof -
  have h: "\<exists>(n, p) \<in> set [(''A'', ''1st''), (''Z'', ''2nd''), (''B'', ''3rd'')].
      p \<noteq> ''Did Not Play'' \<and> map_of (players (CommanderLeague [''A'', ''B''])) n = None"
    by (simp add: CommanderLeague_two)
  from record_game_results_KeyError [OF h, of "''2025-01-01 20:00:00''" "''''" "''A''" "''''"] h
  show ?thesis by blast
qed

text \<open>
  C10. For every call that completes, that is, whose results are a dict in which no name
  with a placement other than "Did Not Play" is missing from the roster: the call
  returns, and a rostered player whose tag is neither "Did Not Play" nor one of the five
  tags of the table is credited 0 placement points (the only change to \<open>points\<close> is the
  bonus if that player is the \<open>mvp\<close> argument) and still has \<open>games_played\<close> increased
  by 1.

  It does not hold for every call: when an earlier entry of the results names a player
  missing from the roster, line 57 raises \<open>KeyError\<close> there, and the rostered player with
  the unrecognised tag, whose entry comes later, keeps \<open>games_played\<close> as it was.
\<close>

theorem record_game_results_unknown_tag:
  assumes "dict results_dict"
    and "\<forall>(n, p) \<in> set results_dict. p \<noteq> ''Did Not Play'' \<longrightarrow> map_of (players s) n \<noteq> None"
    and "(name, place) \<in> set results_dict"
    and "place \<notin> set placement_options"
    and "map_of (players s) name = Some d"
  shows "placement_points place = 0 \<and>
         (\<exists>s' d'.
            record_game_results now results_dict notes_arg mvp_arg deck_arg s = Returned s' \<and>
            map_of (players s') name = Some d' \<and>
            games_played d' = games_played d + 1 \<and>
            points d' = points d + (if name = mvp_arg \<and> mvp_arg \<noteq> [] then 1 else 0))"
proof -
  from assms(1,3) have look: "map_of results_dict name = Some place"
    by (simp add: dict_def)
  from assms(4) have dnp: "place \<noteq> ''Did Not Play''"
    by (auto simp: placement_options_def)
  note zero = placement_points_unknown [OF assms(4)]
  note ret = record_game_results_returns [OF assms(1,2), of now notes_arg mvp_arg deck_arg]
  note pl = returned_player [OF assms(1,2,5), of mvp_arg]
  show ?thesis
    unfolding ret using pl look dnp zero by auto
qed

theorem record_game_results_unknown_tag_witness:
  "dict [(''A'', ''6th''), (''B'', ''1st'')] \<and>
   list_all (\<lambda>(n, p). p \<noteq> ''Did Not Play'' \<longrightarrow> map_of (players (CommanderLeague [''A'', ''B''])) n \<noteq> None)
      [(''A'', ''6th''), (''B'', ''1st'')] \<and>
   (''A'', ''6th'') \<in> set [(''A'', ''6th''), (''B'', ''1st'')] \<and>
   ''6th'' \<notin> set placement_options \<and>
   map_of (players (CommanderLeague [''A'', ''B''])) ''A'' =
     Some \<lparr>points = 0, games_played = 0, mvp_count = 0, color = ''red''\<rparr> \<and>
   placement_points ''6th'' = 0 \<and>
   (\<exists>s' d'.
      record_game_results ''2025-01-01 20:00:00'' [(''A'', ''6th''), (''B'', ''1st'')]
        '''' ''B'' '''' (CommanderLeague [''A'', ''B'']) = Returned s' \<and>
      map_of (players s') ''A'' = Some d' \<and> games_played d' = 1 \<and> points d' = 0)"
proof -
  have h1: "dict [(''A'', ''6th''), (''B'', ''1st'')]"
    by (simp add: dict_def)
  have h2: "\<forall>(n, p) \<in> set [(''A'', ''6th''), (''B'', ''1st'')].
      p \<noteq> ''Did Not Play'' \<longrightarrow> map_of (players (CommanderLeague [''A'', ''B''])) n \<noteq> None"
    by (simp add: CommanderLeague_two)
  have h2': "list_all (\<lambda>(n, p). p \<noteq> ''Did Not Play'' \<longrightarrow> map_of (players (CommanderLeague [''A'', ''B''])) n \<noteq> None) [(''A'', ''6th''), (''B'', ''1st'')]"
    using h2 by (simp add: list_all_iff)
  have h3: "(''A'', ''6th'') \<in> set [(''A'', ''6th''), (''B'', ''1st'')]"
    by simp
  have h4: "''6th'' \<notin> set placement_options"
    by (simp add: placement_options_def)
  have h5: "map_of (players (CommanderLeague [''A'', ''B''])) ''A'' =
     Some \<lparr>points = 0, games_played = 0, mvp_count = 0, color = ''red''\<rparr>"
    by (simp add: CommanderLeague_two)
  from record_game_results_unknown_tag [OF h1 h2 h3 h4 h5,
      of "''2025-01-01 20:00:00''" "''''" "''B''" "''''"]
  have "placement_points ''6th'' = 0 \<and>
   (\<exists>s' d'.
      record_game_results ''2025-01-01 20:00:00'' [(''A'', ''6th''), (''B'', ''1st'')]
        '''' ''B'' '''' (CommanderLeague [''A'', ''B'']) = Returned s' \<and>
      map_of (players s') ''A'' = Some d' \<and> games_played d' = 1 \<and> points d' = 0)"
    by simp
  with h1 h2' h3 h4 h5 show ?thesis by blast
qed

theorem record_game_results_unknown_tag_counterexample:
  "''6th'' \<notin> set placement_options \<and>
   map_of (players (CommanderLeague [''A'', ''B''])) ''A'' =
     Some \<lparr>points = 0, games_played = 0, mvp_count = 0, color = ''red''\<rparr> \<and>
   record_game_results ''2025-01-01 20:00:00'' [(''Z'', ''1st''), (''A'', ''6th'')]
       '''' '''' '''' (CommanderLeague [''A'', ''B'']) =
     Raised KeyError
       \<lparr>players = [(''A'', \<lparr>points = 0, games_played = 0, mvp_count = 0, color = ''red''\<rparr>),
                   (''B'', \<lparr>points = 0, games_played = 0, mvp_count = 0, color = ''blue''\<rparr>)],
        history = [\<lparr>timestamp = ''2025-01-01 20:00:00'',
                    results = [(''Z'', ''1st''), (''A'', ''6th'')],
                    notes = '''', mvp = '''', deck_used = ''''\<rparr>]\<rparr>"
  by (simp add: CommanderLeague_two record_game_results_def credit_def placement_points_table
                placement_options_def)

subsection \<open>Standings\<close>

text \<open>
  C3, as amended. For every league state in which no player's average is beyond the
  range of a float, and for every value of \<open>sort_by\<close>, \<open>get_standings\<close> returns one tuple
  (name, points, games_played, average, mvp_count) per entry of the roster, in an order
  that is descending in \<open>games_played\<close> when \<open>sort_by\<close> is "games" and descending in
  the average for every other value of \<open>sort_by\<close>.

  The claim as stated, for every league state, fails where \<open>points / games\<close> overflows:
  the division raises \<open>OverflowError\<close> and no standings are returned (the
  counterexample has \<open>2 ^ 1024\<close> points in one game). By \<open>average_in_range\<close> the
  hypothesis holds of every player with no game played or with fewer than \<open>2 ^ 1023\<close>
  points per game in magnitude.
\<close>

theorem get_standings_sorted:
  assumes "\<forall>(n, d) \<in> set (players s). average (points d) (games_played d) \<noteq> Inl OverflowError"
  shows "\<exists>st. get_standings sort_by s = Inr st \<and>
           mset st = mset (map (\<lambda>(name, d). (name, points d, games_played d,
                                   projr (average (points d) (games_played d)), mvp_count d))
                             (players s)) \<and>
           (sort_by = ''games'' \<longrightarrow> sorted_wrt (\<ge>) (map (\<lambda>(name, pts, games, avg, mvps). games) st)) \<and>
           (sort_by \<noteq> ''games'' \<longrightarrow>
              sorted_wrt (\<ge>) (map (\<lambda>(name, pts, games, avg, mvps). number_value avg) st))"
proof -
  have g: "(\<lambda>(name, pts, games, avg, mvps). games) = games_key"
    by (auto simp: games_key_def)
  have a: "(\<lambda>(name, pts, games, avg, mvps). number_value avg) = average_key"
    by (auto simp: average_key_def)
  have r: "(\<lambda>(name, d). (name, points d, games_played d,
              projr (average (points d) (games_played d)), mvp_count d)) = standing_of"
    by (simp add: standing_of_def)
  show ?thesis
    unfolding get_standings_Inr [OF assms] g a r
    by (simp add: mset_sorted_reverse sorted_reverse_desc)
qed

theorem get_standings_sorted_witness:
  "list_all (\<lambda>(n, d). average (points d) (games_played d) \<noteq> Inl OverflowError)
     (players example_league) \<and>
   sorted_wrt (\<ge>) (map (\<lambda>(name, pts, games, avg, mvps). games)
     ([(''B'', 8, 2, PyFloat 4, 1), (''A'', 2, 1, PyFloat 2, 0), (''C'', 0, 0, PyInt 0, 0)]
        :: standing list)) \<and>
   sorted_wrt (\<ge>) (map (\<lambda>(name, pts, games, avg, mvps). number_value avg)
     ([(''B'', 8, 2, PyFloat 4, 1), (''A'', 2, 1, PyFloat 2, 0), (''C'', 0, 0, PyInt 0, 0)]
        :: standing list))"
proof -
  note h = example_league_in_range
  from get_standings_sorted [OF h, of "''games''"] have
    "sorted_wrt (\<ge>) (map (\<lambda>(name, pts, games, avg, mvps). games)
       ([(''B'', 8, 2, PyFloat 4, 1), (''A'', 2, 1, PyFloat 2, 0), (''C'', 0, 0, PyInt 0, 0)]
        :: standing list))"
    unfolding example_standings_games by auto
  moreover from get_standings_sorted [OF h, of "''average''"] have
    "sorted_wrt (\<ge>) (map (\<lambda>(name, pts, games, avg, mvps). number_value avg)
       ([(''B'', 8, 2, PyFloat 4, 1), (''A'', 2, 1, PyFloat 2, 0), (''C'', 0, 0, PyInt 0, 0)]
        :: standing list))"
    unfolding example_standings_average by auto
  moreover from h have "list_all (\<lambda>(n, d). average (points d) (games_played d) \<noteq> Inl OverflowError)
     (players example_league)"
    by (simp add: list_all_iff)
  ultimately show ?thesis by blast
qed

theorem get_standings_sorted_counterexample:
  "get_standings ''average''
     \<lparr>players = [(''A'', \<lparr>points = 2 ^ 1024, games_played = 1, mvp_count = 0, color = ''red''\<rparr>)],
      history = []\<rparr> = Inl OverflowError"
  using py_truediv_pow2 [of 1024]
  by (simp add: get_standings_def average_def del: power_numeral)

text \<open>
  C7. A rostered player with \<open>games_played\<close> equal to 0 has the average 0 (the integer,
  with no division made), and \<open>get_standings\<close> never raises \<open>ZeroDivisionError\<close>. The
  tuple of that player, with average 0, is in the standings whenever standings are
  returned, which is whenever no other player's average overflows; the only error
  \<open>get_standings\<close> can raise is that \<open>OverflowError\<close>.
\<close>

theorem get_standings_no_games:
  assumes "(name, d) \<in> set (players s)" and "games_played d = 0"
  shows "average (points d) (games_played d) = Inr (PyInt 0) \<and>
         get_standings sort_by s \<noteq> Inl ZeroDivisionError \<and>
         (get_standings sort_by s = Inl OverflowError \<or>
          (\<exists>st. get_standings sort_by s = Inr st \<and>
                (name, points d, 0, PyInt 0, mvp_count d) \<in> set st)) \<and>
         ((\<forall>(n, d') \<in> set (players s).
              average (points d') (games_played d') \<noteq> Inl OverflowError) \<longrightarrow>
          (\<exists>st. get_standings sort_by s = Inr st \<and>
                (name, points d, 0, PyInt 0, mvp_count d) \<in> set st))"
proof -
  from assms(2) have avg: "average (points d) (games_played d) = Inr (PyInt 0)"
    by (simp add: average_no_games)
  with assms have row: "(name, points d, 0, PyInt 0, mvp_count d) \<in> standing_of ` set (players s)"
    by (force simp: standing_of_def)
  have nz: "get_standings sort_by s \<noteq> Inl ZeroDivisionError"
    by (auto dest: get_standings_Inl)
  have either: "get_standings sort_by s = Inl OverflowError \<or>
          (\<exists>st. get_standings sort_by s = Inr st \<and>
                (name, points d, 0, PyInt 0, mvp_count d) \<in> set st)"
  proof (cases "get_standings sort_by s")
    case (Inl e)
    then show ?thesis by (auto dest: get_standings_Inl)
  next
    case (Inr st)
    with row show ?thesis by (auto dest: get_standings_set)
  qed
  have ret: "\<exists>st. get_standings sort_by s = Inr st \<and>
                (name, points d, 0, PyInt 0, mvp_count d) \<in> set st"
    if "\<forall>(n, d') \<in> set (players s). average (points d') (games_played d') \<noteq> Inl OverflowError"
    using get_standings_Inr [OF that, of sort_by] row
    by (simp add: set_sorted_reverse)
  from avg nz either ret show ?thesis by blast
qed

theorem get_standings_no_games_witness:
  "(''C'', \<lparr>points = 0, games_played = 0, mvp_count = 0, color = ''green''\<rparr>)
     \<in> set (players example_league) \<and>
   games_played \<lparr>points = 0, games_played = 0, mvp_count = 0, color = ''green''\<rparr> = 0 \<and>
   average 0 0 = Inr (PyInt 0) \<and>
   get_standings ''average'' example_league \<noteq> Inl ZeroDivisionError \<and>
   (\<exists>st. get_standings ''average'' example_league = Inr st \<and>
         (''C'', 0, 0, PyInt 0, 0) \<in> set st)"
proof -
  let ?d = "\<lparr>points = 0, games_played = 0, mvp_count = 0, color = ''green''\<rparr>"
  have h1: "(''C'', ?d) \<in> set (players example_league)"
    by (simp add: example_league_def)
  have h2: "games_played ?d = 0" by simp
  from get_standings_no_games [OF h1 h2, of "''average''"] example_league_in_range
  have "average 0 0 = Inr (PyInt 0) \<and>
     get_standings ''average'' example_league \<noteq> Inl ZeroDivisionError \<and>
     (\<exists>st. get_standings ''average'' example_league = Inr st \<and>
           (''C'', 0, 0, PyInt 0, 0) \<in> set st)"
    by simp
  with h1 h2 show ?thesis by blast
qed

subsection \<open>Reset and roster\<close>

text \<open>
  C5. \<open>reset_league\<close> sets \<open>points\<close>, \<open>games_played\<close> and \<open>mvp_count\<close> of every
  rostered player to 0 and empties the history; the names, their order and each player's
  color stay as they were; \<open>get_standings\<close> afterwards returns, for every player, the
  tuple with points 0, games 0, average 0 and mvp 0 (in roster order, all keys being
  equal). The roster is a dict: its names are distinct.
\<close>

theorem reset_league_spec:
  assumes "dict (players s)"
  shows "players (reset_league s) =
           map (\<lambda>(name, d). (name, d\<lparr>points := 0, games_played := 0, mvp_count := 0\<rparr>))
             (players s) \<and>
         map fst (players (reset_league s)) = map fst (players s) \<and>
         map (\<lambda>(name, d). color d) (players (reset_league s)) =
           map (\<lambda>(name, d). color d) (players s) \<and>
         history (reset_league s) = [] \<and>
         get_standings sort_by (reset_league s) =
           Inr (map (\<lambda>(name, d). (name, 0, 0, PyInt 0, 0)) (players s))"
proof -
  let ?zs = "map (\<lambda>(n, d). (n, zero_stats d)) (players s)"
  have pl: "players (reset_league s) = ?zs"
    by (rule reset_league_players [OF assms])
  have rows: "map standing_of ?zs = map (\<lambda>(name, d). (name, 0, 0, PyInt 0, 0)) (players s)"
    by (auto simp: standing_of_def zero_stats_def average_def)
  have ok: "\<forall>(n, d) \<in> set (players (reset_league s)).
              average (points d) (games_played d) \<noteq> Inl OverflowError"
    unfolding pl by (auto simp: zero_stats_def average_def)
  have "get_standings sort_by (reset_league s) =
          Inr (if sort_by = ''games''
               then sorted_reverse games_key (map (\<lambda>(name, d). (name, 0, 0, PyInt 0, 0)) (players s))
               else sorted_reverse average_key (map (\<lambda>(name, d). (name, 0, 0, PyInt 0, 0)) (players s)))"
    unfolding get_standings_Inr [OF ok] pl rows ..
  also have "\<dots> = Inr (map (\<lambda>(name, d). (name, 0, 0, PyInt 0, 0)) (players s))"
    by (auto simp: games_key_def average_key_def intro!: sorted_reverse_const [where c = 0])
  finally have st: "get_standings sort_by (reset_league s) =
      Inr (map (\<lambda>(name, d). (name, 0, 0, PyInt 0, 0)) (players s))" .
  have hist: "history (reset_league s) = []"
    by (simp add: reset_league_def)
  from pl st hist show ?thesis
    by (simp add: zero_stats_def case_prod_unfold comp_def)
qed

theorem reset_league_spec_witness:
  "dict (players example_league) \<and>
   players (reset_league example_league) =
     [(''A'', \<lparr>points = 0, games_played = 0, mvp_count = 0, color = ''red''\<rparr>),
      (''B'', \<lparr>points = 0, games_played = 0, mvp_count = 0, color = ''blue''\<rparr>),
      (''C'', \<lparr>points = 0, games_played = 0, mvp_count = 0, color = ''green''\<rparr>)] \<and>
   history (reset_league example_league) = [] \<and>
   get_standings ''average'' (reset_league example_league) =
     Inr [(''A'', 0, 0, PyInt 0, 0), (''B'', 0, 0, PyInt 0, 0), (''C'', 0, 0, PyInt 0, 0)]"
proof -
  have h: "dict (players example_league)"
    by (simp add: dict_def example_league_def)
  have pl: "players example_league =
     [(''A'', \<lparr>points = 2, games_played = 1, mvp_count = 0, color = ''red''\<rparr>),
      (''B'', \<lparr>points = 8, games_played = 2, mvp_count = 1, color = ''blue''\<rparr>),
      (''C'', \<lparr>points = 0, games_played = 0, mvp_count = 0, color = ''green''\<rparr>)]"
    by (simp add: example_league_def)
  from reset_league_spec [OF h, of "''average''"] h show ?thesis
    unfolding pl by simp
qed

text \<open>
  C8. \<open>add_player name\<close> returns the league unchanged when \<open>name\<close> is empty or
  already in the roster. Otherwise the roster is the old one followed by the new player,
  with points, games and mvp count 0 and the color of the nine-color palette at index
  (roster size mod 9); every other player and the history are unchanged. The roster
  size is the length of the association list, which for a dict is the number of names.
\<close>

theorem add_player_spec:
  "(name = [] \<or> name \<in> fst ` set (players s) \<longrightarrow> add_player name s = s) \<and>
   (name \<noteq> [] \<and> name \<notin> fst ` set (players s) \<longrightarrow>
      players (add_player name s) =
        players s @ [(name, \<lparr>points = 0, games_played = 0, mvp_count = 0,
                             color = team_colors ! (length (players s) mod 9)\<rparr>)] \<and>
      (\<forall>other. other \<noteq> name \<longrightarrow>
         map_of (players (add_player name s)) other = map_of (players s) other) \<and>
      history (add_player name s) = history s) \<and>
   length team_colors = 9 \<and>
   (dict (players s) \<longrightarrow> length (players s) = card (fst ` set (players s)))"
proof -
  have noop: "add_player name s = s" if "name = [] \<or> name \<in> fst ` set (players s)"
    using that by (auto simp: add_player_def map_of_eq_None_keys)
  have added: "players (add_player name s) =
        players s @ [(name, \<lparr>points = 0, games_played = 0, mvp_count = 0,
                             color = team_colors ! (length (players s) mod 9)\<rparr>)]"
    and hist: "history (add_player name s) = history s"
    if "name \<noteq> []" "name \<notin> fst ` set (players s)"
    using that
    by (simp_all add: add_player_def map_of_eq_None_keys update_absent new_player_def
                      length_team_colors)
  have others: "map_of (players (add_player name s)) other = map_of (players s) other"
    if "other \<noteq> name" for other
    using that by (simp add: add_player_def update_conv')
  from noop added hist others show ?thesis
    using length_team_colors dict_length_card [of "players s"] by blast
qed

theorem add_player_spec_witness:
  "''D'' \<noteq> [] \<and> ''D'' \<notin> fst ` set (players example_league) \<and>
   players (add_player ''D'' example_league) =
     players example_league @
       [(''D'', \<lparr>points = 0, games_played = 0, mvp_count = 0, color = ''orange''\<rparr>)] \<and>
   history (add_player ''D'' example_league) = history example_league \<and>
   ''A'' \<in> fst ` set (players example_league) \<and>
   add_player ''A'' example_league = example_league \<and>
   add_player [] example_league = example_league"
proof -
  have h1: "''D'' \<noteq> [] \<and> ''D'' \<notin> fst ` set (players example_league)"
    by (simp add: example_league_def)
  have h2: "''A'' \<in> fst ` set (players example_league)"
    by (simp add: example_league_def)
  have len: "length (players example_league) = 3"
    by (simp add: example_league_def)
  from add_player_spec [of "''D''" example_league] h1
  have "players (add_player ''D'' example_league) =
     players example_league @
       [(''D'', \<lparr>points = 0, games_played = 0, mvp_count = 0, color = ''orange''\<rparr>)] \<and>
     history (add_player ''D'' example_league) = history example_league"
    by (simp add: len team_colors_def)
  moreover from add_player_spec [of "''A''" example_league] h2
  have "add_player ''A'' example_league = example_league" by blast
  moreover from add_player_spec [of "[]" example_league]
  have "add_player [] example_league = example_league" by blast
  ultimately show ?thesis using h1 h2 by blast
qed

subsection \<open>Saving, then loading\<close>




end
